theory Spec2Isabelle
  imports Main "HOL-Library.Sublist"
begin

section \<open>Strings\<close>

text \<open>
  Python strings are modelled as \<open>string\<close> (lists of 8-bit characters) and the model is
  meant for ASCII text: \<open>str.lower\<close> maps \<open>A\<close>..\<open>Z\<close> to \<open>a\<close>..\<open>z\<close> and leaves every
  other character alone. Python's \<open>a in b\<close> on strings is contiguous containment,
  \<open>sublist a b\<close>.
\<close>

definition upper_letters :: string where
  "upper_letters = ''ABCDEFGHIJKLMNOPQRSTUVWXYZ''"

definition lower_letters :: string where
  "lower_letters = ''abcdefghijklmnopqrstuvwxyz''"

definition lower_char :: "char \<Rightarrow> char" where
  "lower_char c =
     (case map_of (zip upper_letters lower_letters) c of None \<Rightarrow> c | Some d \<Rightarrow> d)"

definition lower :: "string \<Rightarrow> string" where
  "lower s = map lower_char s"

section \<open>models.py: the knowledge base\<close>

text \<open>
  The dictionaries are association lists in insertion order, the order in which
  \<open>dict.items()\<close> iterates.
\<close>

definition INTERACTIONS :: "(string \<times> string list) list" where
  "INTERACTIONS =
    [(''warfarin'', [''green leafy vegetables'', ''cranberries'', ''grapefruit'']),
     (''statins'', [''grapefruit'', ''grapefruit juice'']),
     (''antibiotics'', [''dairy'', ''alcohol'', ''caffeine'']),
     (''maoi'', [''aged cheese'', ''cured meats'', ''draft beer'', ''sauerkraut'', ''soy sauce'']),
     (''ace inhibitors'', [''bananas'', ''potassium supplements'', ''salt substitutes'']),
     (''digoxin'', [''high-fiber foods'', ''licorice'']),
     (''diuretics'', [''licorice'', ''alcohol'']),
     (''thyroid medication'', [''soy'', ''walnuts'', ''high-fiber foods''])]"

definition ALLERGIES :: "string list" where
  "ALLERGIES =
    [''peanuts'', ''tree nuts'', ''milk'', ''eggs'', ''fish'', ''shellfish'',
     ''soy'', ''wheat'', ''gluten'', ''sesame'']"

definition CONDITIONS :: "(string \<times> string list) list" where
  "CONDITIONS =
    [(''diabetes'', [''sugar'', ''high carbs'', ''honey'', ''syrup'']),
     (''hypertension'', [''salt'', ''sodium'', ''cured meats'', ''pickles'', ''canned soups'']),
     (''high cholesterol'', [''saturated fats'', ''trans fats'', ''fatty meats'']),
     (''gout'', [''red meat'', ''organ meats'', ''seafood'', ''alcohol'', ''high-fructose'']),
     (''kidney disease'', [''phosphorus'', ''potassium'', ''sodium'', ''protein'']),
     (''celiac'', [''gluten'', ''wheat'', ''barley'', ''rye'']),
     (''heart disease'', [''saturated fat'', ''trans fat'', ''cholesterol'', ''sodium'']),
     (''ibs'', [''dairy'', ''wheat'', ''citrus fruits'', ''beans'', ''cabbage''])]"

text \<open>
  The test of both lookup loops: \<open>med in medication_name or medication_name in med\<close>.
\<close>

definition key_matches :: "string \<Rightarrow> string \<Rightarrow> bool" where
  "key_matches key name = (sublist key name \<or> sublist name key)"

text \<open>
  The loop \<open>for key, foods in table.items(): if ...: return foods\<close> followed by
  \<open>return []\<close>; \<open>name\<close> is the query, already lower-cased.
\<close>

fun lookup_loop :: "(string \<times> string list) list \<Rightarrow> string \<Rightarrow> string list" where
  "lookup_loop [] name = []"
| "lookup_loop ((key, foods) # rest) name =
     (if key_matches key name then foods else lookup_loop rest name)"

definition get_risky_foods_for_medication :: "string \<Rightarrow> string list" where
  "get_risky_foods_for_medication medication_name =
     lookup_loop INTERACTIONS (lower medication_name)"

definition get_foods_to_avoid_for_condition :: "string \<Rightarrow> string list" where
  "get_foods_to_avoid_for_condition condition =
     lookup_loop CONDITIONS (lower condition)"

text \<open>
  The lookup as the specification words it: the foods of all keys that match the query
  ignoring case, in either direction of containment.
\<close>

definition spec_union_lookup :: "(string \<times> string list) list \<Rightarrow> string \<Rightarrow> string set" where
  "spec_union_lookup table name =
     (\<Union>kv \<in> set table.
        if key_matches (lower (fst kv)) (lower name) then set (snd kv) else {})"

section \<open>Regular expressions\<close>

text \<open>
  The patterns of the source are sequences of literals, greedy repetitions of a character
  class and one optional group. Each pattern is written as a backtracking matcher in
  continuation style, the way Python's \<open>re\<close> tries them: a piece consumes a prefix of the
  input and hands the rest to its continuation; a greedy repetition tries the longest
  run first and gives characters back while the continuation fails. A matcher applied at
  a position returns group 1 and the input left after the whole match. The classes
  \<open>\w\<close>, \<open>\s\<close> and \<open>\d\<close> are given for ASCII text: letters, digits and the underscore;
  the ten ASCII characters for which \<open>str.isspace\<close> holds; the ten digits.
\<close>

definition is_word :: "char \<Rightarrow> bool" where
  "is_word c =
     (c \<in> set ''abcdefghijklmnopqrstuvwxyzABCDEFGHIJKLMNOPQRSTUVWXYZ0123456789_'')"

definition is_digit :: "char \<Rightarrow> bool" where
  "is_digit c = (c \<in> set ''0123456789'')"

definition is_space :: "char \<Rightarrow> bool" where
  "is_space c =
     (c \<in> set [CHR 0x20, CHR 0x09, CHR 0x0A, CHR 0x0B, CHR 0x0C, CHR 0x0D,
                CHR 0x1C, CHR 0x1D, CHR 0x1E, CHR 0x1F])"

definition not_dot :: "char \<Rightarrow> bool" where
  "not_dot c = (c \<noteq> CHR ''.'')"

definition rx_lit :: "string \<Rightarrow> (string \<Rightarrow> 'a option) \<Rightarrow> string \<Rightarrow> 'a option" where
  "rx_lit p k s = (if prefix p s then k (drop (length p) s) else None)"

text \<open>A literal under \<open>re.IGNORECASE\<close>.\<close>

definition rx_lit_ci :: "string \<Rightarrow> (string \<Rightarrow> 'a option) \<Rightarrow> string \<Rightarrow> 'a option" where
  "rx_lit_ci p k s =
     (if length p \<le> length s \<and> lower (take (length p) s) = lower p
      then k (drop (length p) s) else None)"

fun rx_star :: "(char \<Rightarrow> bool) \<Rightarrow> (string \<Rightarrow> 'a option) \<Rightarrow> string \<Rightarrow> 'a option" where
  "rx_star cls k [] = k []"
| "rx_star cls k (c # cs) =
     (if cls c
      then (case rx_star cls k cs of Some r \<Rightarrow> Some r | None \<Rightarrow> k (c # cs))
      else k (c # cs))"

fun rx_plus :: "(char \<Rightarrow> bool) \<Rightarrow> (string \<Rightarrow> 'a option) \<Rightarrow> string \<Rightarrow> 'a option" where
  "rx_plus cls k [] = None"
| "rx_plus cls k (c # cs) = (if cls c then rx_star cls k cs else None)"

text \<open>\<open>(...)?\<close>: the group is tried first, then skipped.\<close>

definition rx_opt ::
  "((string \<Rightarrow> 'a option) \<Rightarrow> string \<Rightarrow> 'a option) \<Rightarrow> (string \<Rightarrow> 'a option) \<Rightarrow> string \<Rightarrow> 'a option"
where
  "rx_opt p k s = (case p k s of Some r \<Rightarrow> Some r | None \<Rightarrow> k s)"

text \<open>\<open>(?:a|b)\<close>: the left branch is tried first.\<close>

definition rx_alt ::
  "((string \<Rightarrow> 'a option) \<Rightarrow> string \<Rightarrow> 'a option) \<Rightarrow>
   ((string \<Rightarrow> 'a option) \<Rightarrow> string \<Rightarrow> 'a option) \<Rightarrow>
   (string \<Rightarrow> 'a option) \<Rightarrow> string \<Rightarrow> 'a option"
where
  "rx_alt p q k s = (case p k s of Some r \<Rightarrow> Some r | None \<Rightarrow> q k s)"

text \<open>The text between the position \<open>s1\<close> where a group opens and \<open>s2\<close> where it closes.\<close>

definition captured :: "string \<Rightarrow> string \<Rightarrow> string" where
  "captured s1 s2 = take (length s1 - length s2) s1"

text \<open>
  \<open>re.search\<close>: is there a position where the pattern matches. \<open>re.findall\<close>: scan from
  the left; a match contributes group 1 and the scan resumes after it, otherwise it moves
  one character on. (No pattern of the source matches the empty string; were a match
  empty, the scan would move one character on as well.)
\<close>

fun search :: "(string \<Rightarrow> 'a option) \<Rightarrow> string \<Rightarrow> bool" where
  "search rx [] = (rx [] \<noteq> None)"
| "search rx (c # cs) = (rx (c # cs) \<noteq> None \<or> search rx cs)"

function findall :: "(string \<Rightarrow> (string \<times> string) option) \<Rightarrow> string \<Rightarrow> string list" where
  "findall rx [] = (case rx [] of Some (g, rest) \<Rightarrow> [g] | None \<Rightarrow> [])"
| "findall rx (c # cs) =
     (case rx (c # cs) of
        Some (g, rest) \<Rightarrow> g # findall rx (if length rest \<le> length cs then rest else cs)
      | None \<Rightarrow> findall rx cs)"
  by pat_completeness auto
termination
  by (relation "measure (\<lambda>(rx, s). length s)") auto

text \<open>\<open>list(set(xs))\<close>: the elements of \<open>xs\<close>, each once. Python leaves the order of the
  result open; the model keeps first occurrences in order, and no statement below
  depends on the order.\<close>

definition list_set :: "string list \<Rightarrow> string list" where
  "list_set xs = remdups xs"

section \<open>rag\_engine.py: mining the prescription text\<close>

definition common_meds :: "string list" where
  "common_meds =
    [''warfarin'', ''coumadin'', ''atorvastatin'', ''lipitor'', ''simvastatin'', ''zocor'',
     ''lisinopril'', ''prinivil'', ''zestril'', ''metformin'', ''glucophage'', ''amlodipine'',
     ''norvasc'', ''metoprolol'', ''lopressor'', ''toprol'', ''losartan'', ''cozaar'',
     ''albuterol'', ''proventil'', ''ventolin'', ''omeprazole'', ''prilosec'', ''gabapentin'',
     ''neurontin'', ''hydrochlorothiazide'', ''levothyroxine'', ''synthroid'', ''amoxicillin'',
     ''penicillin'', ''aspirin'', ''ibuprofen'', ''acetaminophen'', ''tylenol'', ''advil'',
     ''insulin'', ''prednisone'', ''fluoxetine'', ''prozac'', ''sertraline'', ''zoloft'',
     ''furosemide'', ''lasix'', ''citalopram'', ''celexa'', ''montelukast'', ''singulair'']"

definition non_meds :: "string list" where
  "non_meds =
    [''the'', ''and'', ''with'', ''this'', ''your'', ''you'', ''for'', ''daily'', ''once'',
     ''twice'', ''day'', ''morning'', ''night'']"

text \<open>\<open>prescri\w+\s+(\w+)\<close>\<close>

definition prescribed_pattern :: "string \<Rightarrow> (string \<times> string) option" where
  "prescribed_pattern s =
     rx_lit ''prescri'' (rx_plus is_word (rx_plus is_space
       (\<lambda>s1. rx_plus is_word (\<lambda>s2. Some (captured s1 s2, s2)) s1))) s"

text \<open>\<open>take\s+(\w+)\<close>\<close>

definition take_pattern :: "string \<Rightarrow> (string \<times> string) option" where
  "take_pattern s =
     rx_lit ''take'' (rx_plus is_space
       (\<lambda>s1. rx_plus is_word (\<lambda>s2. Some (captured s1 s2, s2)) s1)) s"

text \<open>\<open>(\w+)\s+\d+\s*mg\<close>\<close>

definition dosage_pattern :: "string \<Rightarrow> (string \<times> string) option" where
  "dosage_pattern s =
     rx_plus is_word
       (\<lambda>s1. rx_plus is_space (rx_plus is_digit (rx_star is_space
          (rx_lit ''mg'' (\<lambda>s2. Some (captured s s1, s2))))) s1) s"

definition extract_medications :: "string \<Rightarrow> string list" where
  "extract_medications text =
     (let meds = filter (\<lambda>med. sublist med text) common_meds
                 @ findall prescribed_pattern text
                 @ findall take_pattern text
                 @ findall dosage_pattern text;
          filtered_meds = filter (\<lambda>med. lower med \<notin> set non_meds \<and> length med > 2) meds
      in list_set filtered_meds)"

definition common_conditions :: "string list" where
  "common_conditions =
    [''diabetes'', ''hypertension'', ''high blood pressure'', ''high cholesterol'',
     ''heart disease'', ''asthma'', ''copd'', ''arthritis'', ''depression'', ''anxiety'',
     ''thyroid'', ''hypothyroidism'', ''hyperthyroidism'', ''gerd'', ''acid reflux'',
     ''migraine'', ''allergies'', ''gout'', ''kidney disease'', ''liver disease'',
     ''osteoporosis'', ''cancer'', ''epilepsy'', ''seizures'', ''parkinsons'',
     ''alzheimers'', ''celiac'', ''gluten'', ''lactose intolerance'', ''ibs'',
     ''crohns'', ''colitis'', ''fibromyalgia'', ''lupus'', ''psoriasis'', ''eczema'']"

text \<open>The tail \<open>(\w+(\s+\w+)?)\<close> shared by three patterns: one word, and a second one
  if it is there; group 1 is all of it.\<close>

definition one_or_two_words :: "string \<Rightarrow> (string \<times> string) option" where
  "one_or_two_words s1 =
     rx_plus is_word
       (rx_opt (\<lambda>k. rx_plus is_space (rx_plus is_word k))
          (\<lambda>s2. Some (captured s1 s2, s2))) s1"

text \<open>\<open>diagnos\w+\s+with\s+(\w+(\s+\w+)?)\<close>\<close>

definition diagnosed_pattern :: "string \<Rightarrow> (string \<times> string) option" where
  "diagnosed_pattern s =
     rx_lit ''diagnos'' (rx_plus is_word (rx_plus is_space (rx_lit ''with''
       (rx_plus is_space one_or_two_words)))) s"

text \<open>\<open>treat\w+\s+(\w+(\s+\w+)?)\<close>\<close>

definition treat_pattern :: "string \<Rightarrow> (string \<times> string) option" where
  "treat_pattern s =
     rx_lit ''treat'' (rx_plus is_word (rx_plus is_space one_or_two_words)) s"

definition extract_conditions :: "string \<Rightarrow> string list" where
  "extract_conditions text =
     list_set (filter (\<lambda>condition. sublist condition text) common_conditions
               @ findall diagnosed_pattern text
               @ findall treat_pattern text)"

text \<open>\<open>allerg\w+\s+to\s+{allergy}\<close>; the vocabulary has no character that is special in
  a pattern, so the allergen is a literal.\<close>

definition allergy_pattern :: "string \<Rightarrow> string \<Rightarrow> unit option" where
  "allergy_pattern allergy s =
     rx_lit ''allerg'' (rx_plus is_word (rx_plus is_space (rx_lit ''to''
       (rx_plus is_space (rx_lit allergy (\<lambda>s2. Some ())))))) s"

text \<open>\<open>allerg\w+\s+to\s+(\w+(\s+\w+)?)\<close>\<close>

definition allergic_pattern :: "string \<Rightarrow> (string \<times> string) option" where
  "allergic_pattern s =
     rx_lit ''allerg'' (rx_plus is_word (rx_plus is_space (rx_lit ''to''
       (rx_plus is_space one_or_two_words)))) s"

definition extract_allergies :: "string \<Rightarrow> string list" where
  "extract_allergies text =
     list_set (filter (\<lambda>allergy. search (allergy_pattern allergy) text
                                \<or> sublist (''allergic to '' @ allergy) text) ALLERGIES
               @ findall allergic_pattern text)"

section \<open>rag\_engine.py: analyze\_prescription\<close>

datatype py_error = AttributeError

record findings =
  medications :: "string list"
  conditions :: "string list"
  allergies :: "string list"
  restrictions :: "string list"

text \<open>
  The body of the \<open>try\<close> block. The argument is \<open>Some\<close> of the text when it is a string
  and \<open>None\<close> when it is any other value, on which \<open>prescription_text.lower()\<close> raises.
\<close>

definition analyze_prescription_try :: "string option \<Rightarrow> py_error + findings" where
  "analyze_prescription_try prescription_text =
     (case prescription_text of
        None \<Rightarrow> Inl AttributeError
      | Some p \<Rightarrow>
          let text = lower p;
              meds = extract_medications text;
              conds = extract_conditions text;
              allergs = extract_allergies text;
              medication_restrictions =
                concat (map (\<lambda>med. let risky_foods = get_risky_foods_for_medication med
                                   in if risky_foods \<noteq> [] then risky_foods else []) meds);
              condition_restrictions =
                concat (map (\<lambda>condition.
                               let foods_to_avoid = get_foods_to_avoid_for_condition condition
                               in if foods_to_avoid \<noteq> [] then foods_to_avoid else []) conds);
              all_restrictions =
                list_set (medication_restrictions @ condition_restrictions @ allergs)
          in Inr \<lparr>medications = meds, conditions = conds, allergies = allergs,
                  restrictions = all_restrictions\<rparr>)"

definition empty_findings :: findings where
  "empty_findings = \<lparr>medications = [], conditions = [], allergies = [], restrictions = []\<rparr>"

text \<open>The function: the \<open>except Exception\<close> handler logs and returns the empty findings.\<close>

definition analyze_prescription :: "string option \<Rightarrow> findings" where
  "analyze_prescription prescription_text =
     (case analyze_prescription_try prescription_text of
        Inr result \<Rightarrow> result
      | Inl e \<Rightarrow> empty_findings)"

section \<open>web\_scraper.py: the food description\<close>

text \<open>\<open>str.split(sep)\<close> for a separator \<open>sep\<close> that is not empty (the source splits on a
  comma and on two newlines): the pieces between the occurrences of \<open>sep\<close>, found from
  the left.\<close>

function split_sep :: "string \<Rightarrow> string \<Rightarrow> string list" where
  "split_sep sep [] = [[]]"
| "split_sep sep (c # cs) =
     (if sep \<noteq> [] \<and> prefix sep (c # cs)
      then [] # split_sep sep (drop (length sep) (c # cs))
      else (case split_sep sep cs of
              [] \<Rightarrow> [[c]]
            | piece # pieces \<Rightarrow> (c # piece) # pieces))"
  by pat_completeness auto
termination
  by (relation "measure (\<lambda>(sep, s). length s)") (auto simp: neq_Nil_conv)

text \<open>\<open>str.strip()\<close>\<close>

definition strip :: "string \<Rightarrow> string" where
  "strip s = rev (dropWhile is_space (rev (dropWhile is_space s)))"

text \<open>\<open>(?:ingredients|contains):([^\.]+)\<close>, \<open>(?:made from|composed of):([^\.]+)\<close> and
  \<open>(?:ingredients include|contains):([^\.]+)\<close>, all under \<open>re.IGNORECASE\<close>.\<close>

definition label_pattern :: "string \<Rightarrow> string \<Rightarrow> string \<Rightarrow> (string \<times> string) option" where
  "label_pattern a b s =
     rx_alt (rx_lit_ci a) (rx_lit_ci b)
       (rx_lit '':'' (\<lambda>s1. rx_plus not_dot (\<lambda>s2. Some (captured s1 s2, s2)) s1)) s"

definition ingredient_patterns :: "(string \<Rightarrow> (string \<times> string) option) list" where
  "ingredient_patterns =
     [label_pattern ''ingredients'' ''contains'',
      label_pattern ''made from'' ''composed of'',
      label_pattern ''ingredients include'' ''contains'']"

definition common_ingredients :: "string list" where
  "common_ingredients =
    [''salt'', ''sugar'', ''water'', ''flour'', ''rice'', ''wheat'', ''corn'', ''dairy'',
     ''milk'', ''eggs'', ''soy'', ''nuts'', ''peanuts'', ''fish'', ''shellfish'',
     ''gluten'', ''wheat'', ''vegetable oil'', ''butter'', ''cheese'']"

definition extract_ingredients_from_text :: "string \<Rightarrow> string list" where
  "extract_ingredients_from_text text =
     (let found = concat (map (\<lambda>pattern.
                     concat (map (\<lambda>m. map (\<lambda>item. lower (strip item)) (split_sep '','' m))
                                 (findall pattern text)))
                   ingredient_patterns);
          found' = (if found = []
                    then filter (\<lambda>ingredient. sublist ingredient (lower text)) common_ingredients
                    else found)
      in list_set found')"

definition extract_description :: "string \<Rightarrow> string" where
  "extract_description text =
     (case split_sep [CHR 0x0A, CHR 0x0A] text of
        paragraph # others \<Rightarrow> paragraph
      | [] \<Rightarrow> take 200 text @ ''...'')"

section \<open>rag\_engine.py: check\_food\_safety\<close>

text \<open>
  \<open>food_info\<close> is a dictionary read with \<open>.get\<close>: an entry is \<open>None\<close> when the key is
  absent. Its other entries (name, nutrients, source) are never read; they live in the
  extension of the record, over which the functions below are polymorphic.
\<close>

record food_record =
  ingredients :: "string list option"
  description :: "string option"

record 'm verdict =
  is_safe :: bool
  unsafe_ingredients :: "string list"
  recommendation :: string
  explanation :: "string list"
  food_info :: "'m food_record_scheme option"

text \<open>The three variables the checks update: \<open>is_safe\<close>, \<open>unsafe_ingredients\<close>,
  \<open>explanation\<close>. A check that fires clears the flag and appends to both lists.\<close>

type_synonym tally = "bool \<times> string list \<times> string list"

fun flag :: "string \<Rightarrow> string \<Rightarrow> tally \<Rightarrow> tally" where
  "flag item message (safe, unsafe, expl) = (False, unsafe @ [item], expl @ [message])"

text \<open>Line 180: is the lower-cased food name an element of the lower-cased restriction list.\<close>

definition check_name :: "string \<Rightarrow> string list \<Rightarrow> tally \<Rightarrow> tally" where
  "check_name food_name rs t =
     (if lower food_name \<in> set (map lower rs)
      then flag food_name (food_name @ '' is directly listed in your restrictions.'') t
      else t)"

text \<open>Lines 186-191: every ingredient against every restriction.\<close>

definition check_ingredients :: "string list \<Rightarrow> string list \<Rightarrow> tally \<Rightarrow> tally" where
  "check_ingredients ings rs t =
     fold (\<lambda>ingredient. fold (\<lambda>restriction t'.
             if sublist (lower restriction) (lower ingredient)
                \<or> sublist (lower ingredient) (lower restriction)
             then flag ingredient
                    (ingredient @ '' may interact with your health condition or medication.'') t'
             else t') rs) ings t"

text \<open>Lines 194-200: the risky foods of every medication against the food name and the
  ingredients.\<close>

definition check_medications :: "string \<Rightarrow> string list \<Rightarrow> string list \<Rightarrow> tally \<Rightarrow> tally" where
  "check_medications food_name ings meds t =
     fold (\<lambda>medication. fold (\<lambda>risky_food t'.
             if sublist (lower risky_food) (lower food_name)
                \<or> list_ex (\<lambda>ingredient. sublist (lower risky_food) (lower ingredient)) ings
             then flag risky_food
                    (risky_food @ '' may interact with your medication '' @ medication @ ''.'') t'
             else t') (get_risky_foods_for_medication medication)) meds t"

text \<open>Lines 203-207: every allergy against the food name and the ingredients.\<close>

definition check_allergies :: "string \<Rightarrow> string list \<Rightarrow> string list \<Rightarrow> tally \<Rightarrow> tally" where
  "check_allergies food_name ings als t =
     fold (\<lambda>allergy t'.
             if sublist (lower allergy) (lower food_name)
                \<or> list_ex (\<lambda>ingredient. sublist (lower allergy) (lower ingredient)) ings
             then flag allergy (allergy @ '' is listed in your allergies.'') t'
             else t') als t"

definition run_checks :: "string \<Rightarrow> string list \<Rightarrow> findings \<Rightarrow> tally" where
  "run_checks food_name ings r =
     check_allergies food_name ings (allergies r)
       (check_medications food_name ings (medications r)
         (check_ingredients ings (restrictions r)
           (check_name food_name (restrictions r) (True, [], []))))"

text \<open>Lines 210-222: the recommendation and the returned dictionary. Its \<open>food_info\<close>
  entry is the caller's dictionary itself.\<close>

definition make_verdict :: "tally \<Rightarrow> 'm food_record_scheme option \<Rightarrow> 'm verdict" where
  "make_verdict t fi =
     (case t of (safe, unsafe, expl) \<Rightarrow>
        \<lparr>is_safe = safe,
         unsafe_ingredients = list_set unsafe,
         recommendation =
           (if safe then ''This food appears to be safe for you to consume.''
            else ''This food may not be safe for you based on your prescription.''),
         explanation = list_set expl,
         food_info = fi\<rparr>)"

text \<open>
  Lines 170-177. \<open>food_info.get("ingredients", [])\<close> returns the list stored in the
  dictionary when the key is there and a fresh empty list otherwise, so
  \<open>ingredients.extend\<close> writes into the caller's dictionary exactly when the key is
  there. The result is the list the checks iterate over and the dictionary after the
  \<open>extend\<close>.
\<close>

definition load_ingredients ::
  "'m food_record_scheme \<Rightarrow> string list \<times> 'm food_record_scheme"
where
  "load_ingredients fi =
     (let ings = (case ingredients fi of Some xs \<Rightarrow> xs | None \<Rightarrow> []);
          food_description = (case description fi of Some d \<Rightarrow> d | None \<Rightarrow> [])
      in if ings = [] \<and> food_description \<noteq> []
         then (let ings' = ings @ extract_ingredients_from_text food_description
               in (ings', if ingredients fi = None then fi
                          else fi\<lparr>ingredients := Some ings'\<rparr>))
         else (ings, fi))"

text \<open>
  The body of the \<open>try\<close> block, with the state of the caller's \<open>food_info\<close> when the
  block is left. An argument is \<open>None\<close> when it is not of the type the body uses it at:
  \<open>food_info.get\<close> raises at line 170, \<open>food_name.lower()\<close> and \<open>restrictions.get\<close> raise
  at line 180, after the ingredients have been loaded.
\<close>

definition check_food_safety_try ::
  "string option \<Rightarrow> 'm food_record_scheme option \<Rightarrow> findings option
     \<Rightarrow> 'm food_record_scheme option \<times> (py_error + 'm verdict)"
where
  "check_food_safety_try food_name fi_arg restrictions_arg =
     (case fi_arg of
        None \<Rightarrow> (None, Inl AttributeError)
      | Some fi \<Rightarrow>
          (case load_ingredients fi of (ings, fi') \<Rightarrow>
             (case (food_name, restrictions_arg) of
                (Some fname, Some r) \<Rightarrow>
                  (Some fi', Inr (make_verdict (run_checks fname ings r) (Some fi')))
              | _ \<Rightarrow> (Some fi', Inl AttributeError))))"

definition fault_verdict :: "'m food_record_scheme option \<Rightarrow> 'm verdict" where
  "fault_verdict fi =
     \<lparr>is_safe = False,
      unsafe_ingredients = [],
      recommendation =
        ''Could not determine if this food is safe. Please consult with your doctor or pharmacist.'',
      explanation =
        [''An error occurred during analysis. Please try again or consult a healthcare professional.''],
      food_info = fi\<rparr>"

text \<open>The function: the verdict it returns, and the caller's \<open>food_info\<close> after the call.\<close>

definition check_food_safety ::
  "string option \<Rightarrow> 'm food_record_scheme option \<Rightarrow> findings option
     \<Rightarrow> 'm verdict \<times> 'm food_record_scheme option"
where
  "check_food_safety food_name fi_arg restrictions_arg =
     (case check_food_safety_try food_name fi_arg restrictions_arg of
        (fi', Inr result) \<Rightarrow> (result, fi')
      | (fi', Inl e) \<Rightarrow> (fault_verdict fi', fi'))"

section \<open>Invariants of the tally\<close>

text \<open>The flag is set exactly while both lists are empty.\<close>

definition tally_ok :: "tally \<Rightarrow> bool" where
  "tally_ok t = (case t of (safe, unsafe, expl) \<Rightarrow> safe = (unsafe = []) \<and> safe = (expl = []))"

text \<open>An item and a message, once recorded, stay recorded, and the flag stays cleared.\<close>

definition recorded :: "string \<Rightarrow> string \<Rightarrow> tally \<Rightarrow> bool" where
  "recorded item message t =
     (case t of (safe, unsafe, expl) \<Rightarrow> \<not> safe \<and> item \<in> set unsafe \<and> message \<in> set expl)"

section \<open>Properties of the knowledge-base lookups\<close>

lemma lookup_loop_find:
  "lookup_loop table name =
     (case find (\<lambda>kv. key_matches (fst kv) name) table of None \<Rightarrow> [] | Some kv \<Rightarrow> snd kv)"
  by (induction table name rule: lookup_loop.induct) simp_all

lemma lookup_loop_subset:
  "set (lookup_loop table name) \<subseteq>
     (\<Union>kv \<in> set table. if key_matches (fst kv) name then set (snd kv) else {})"
  by (induction table name rule: lookup_loop.induct) auto

lemma INTERACTIONS_keys_lower: "\<forall>kv \<in> set INTERACTIONS. lower (fst kv) = fst kv"
  by code_simp

lemma CONDITIONS_keys_lower: "\<forall>kv \<in> set CONDITIONS. lower (fst kv) = fst kv"
  by code_simp

text \<open>
  C1, as the code has it. Both lookups return the food list of the first key, in table
  order, that matches the lower-cased query in either direction of containment, and the
  empty list when no key matches; the result lies within the union over all matching
  keys that the specification describes, and the functions are total on strings.
\<close>

theorem lookups_return_first_match:
  "get_risky_foods_for_medication m =
     (case find (\<lambda>kv. key_matches (fst kv) (lower m)) INTERACTIONS of
        None \<Rightarrow> [] | Some kv \<Rightarrow> snd kv)
   \<and> get_foods_to_avoid_for_condition c =
     (case find (\<lambda>kv. key_matches (fst kv) (lower c)) CONDITIONS of
        None \<Rightarrow> [] | Some kv \<Rightarrow> snd kv)
   \<and> set (get_risky_foods_for_medication m) \<subseteq> spec_union_lookup INTERACTIONS m
   \<and> set (get_foods_to_avoid_for_condition c) \<subseteq> spec_union_lookup CONDITIONS c"
proof -
  have "set (lookup_loop INTERACTIONS (lower m)) \<subseteq> spec_union_lookup INTERACTIONS m"
    using lookup_loop_subset [of INTERACTIONS "lower m"] INTERACTIONS_keys_lower
    by (simp add: spec_union_lookup_def)
  moreover have "set (lookup_loop CONDITIONS (lower c)) \<subseteq> spec_union_lookup CONDITIONS c"
    using lookup_loop_subset [of CONDITIONS "lower c"] CONDITIONS_keys_lower
    by (simp add: spec_union_lookup_def)
  ultimately show ?thesis
    by (simp add: get_risky_foods_for_medication_def get_foods_to_avoid_for_condition_def
        lookup_loop_find)
qed

text \<open>The theorem at a name that holds two keys, and at a condition that matches none.\<close>

theorem lookups_return_first_match_witness:
  "get_risky_foods_for_medication ''Warfarin and statins''
     = [''green leafy vegetables'', ''cranberries'', ''grapefruit'']
   \<and> get_foods_to_avoid_for_condition ''unknown'' = []"
proof -
  have a: "find (\<lambda>kv. key_matches (fst kv) (lower ''Warfarin and statins'')) INTERACTIONS
        = Some (''warfarin'', [''green leafy vegetables'', ''cranberries'', ''grapefruit''])"
    by code_simp
  have b: "find (\<lambda>kv. key_matches (fst kv) (lower ''unknown'')) CONDITIONS = None"
    by code_simp
  from lookups_return_first_match [of "''Warfarin and statins''" "''unknown''"]
  have "get_risky_foods_for_medication ''Warfarin and statins'' =
          (case find (\<lambda>kv. key_matches (fst kv) (lower ''Warfarin and statins'')) INTERACTIONS of
             None \<Rightarrow> [] | Some kv \<Rightarrow> snd kv)"
    and "get_foods_to_avoid_for_condition ''unknown'' =
          (case find (\<lambda>kv. key_matches (fst kv) (lower ''unknown'')) CONDITIONS of
             None \<Rightarrow> [] | Some kv \<Rightarrow> snd kv)"
    by blast+
  then show ?thesis
    unfolding a b by simp
qed

text \<open>
  C1 as stated fails: \<open>warfarin and statins\<close> matches the keys \<open>warfarin\<close> and \<open>statins\<close>,
  the union of their foods holds \<open>grapefruit juice\<close>, and the lookup returns the foods of
  \<open>warfarin\<close> alone.
\<close>

theorem lookup_union_counterexample:
  "set (get_risky_foods_for_medication ''warfarin and statins'')
     \<noteq> spec_union_lookup INTERACTIONS ''warfarin and statins''"
proof -
  have "''grapefruit juice'' \<in> spec_union_lookup INTERACTIONS ''warfarin and statins''"
    by code_simp
  moreover have "''grapefruit juice'' \<notin> set (get_risky_foods_for_medication ''warfarin and statins'')"
    by code_simp
  ultimately show ?thesis by blast
qed

lemma lookup_loop_unique:
  assumes "(k, foods) \<in> set table" and "distinct (map fst table)"
    and "key_matches k name"
    and "\<forall>k' \<in> fst ` set table. key_matches k' name \<longrightarrow> k' = k"
  shows "lookup_loop table name = foods"
  using assms
proof (induction table name rule: lookup_loop.induct)
  case (1 name)
  then show ?case by simp
next
  case (2 key fs rest name)
  show ?case
  proof (cases "key_matches key name")
    case True
    with 2(5) have "key = k" by simp
    with 2(2,3) have "fs = foods"
      by (auto simp: image_iff)
    with True show ?thesis by simp
  next
    case False
    with 2(4) have "key \<noteq> k" by auto
    with 2(2) have "(k, foods) \<in> set rest" by auto
    with 2 False show ?thesis by simp
  qed
qed

lemma INTERACTIONS_keys_distinct: "distinct (map fst INTERACTIONS)"
  by code_simp

lemma INTERACTIONS_keys_incomparable:
  "\<forall>k \<in> fst ` set INTERACTIONS. \<forall>k' \<in> fst ` set INTERACTIONS. sublist k k' \<longrightarrow> k = k'"
  by code_simp

lemma INTERACTIONS_foods_nonempty: "\<forall>kv \<in> set INTERACTIONS. snd kv \<noteq> []"
  by code_simp

lemma sublist_lower: "sublist a b \<Longrightarrow> sublist (lower a) (lower b)"
  unfolding lower_def by (rule map_mono_sublist)

text \<open>
  C2, as the code has it. When \<open>m1\<close> is a substring of \<open>m2\<close>, \<open>m1\<close> contains (ignoring
  case) a key \<open>k\<close> of the table, and \<open>k\<close> is the only key that matches \<open>m2\<close>, both names
  get the same, non-empty list: the foods of \<open>k\<close>.
\<close>

theorem substring_names_same_foods:
  assumes "sublist m1 m2"
    and "(k, foods) \<in> set INTERACTIONS"
    and "sublist k (lower m1)"
    and "\<forall>k' \<in> fst ` set INTERACTIONS. key_matches k' (lower m2) \<longrightarrow> k' = k"
  shows "get_risky_foods_for_medication m1 = get_risky_foods_for_medication m2
         \<and> get_risky_foods_for_medication m1 = foods \<and> foods \<noteq> []"
proof -
  have sub: "sublist (lower m1) (lower m2)"
    using assms(1) by (rule sublist_lower)
  have kin: "k \<in> fst ` set INTERACTIONS"
    using assms(2) by force
  have m2: "key_matches k (lower m2)"
    using assms(3) sub by (auto simp: key_matches_def)
  have m1: "key_matches k (lower m1)"
    using assms(3) by (simp add: key_matches_def)
  have only1: "\<forall>k' \<in> fst ` set INTERACTIONS. key_matches k' (lower m1) \<longrightarrow> k' = k"
  proof (intro ballI impI)
    fix k' assume k': "k' \<in> fst ` set INTERACTIONS" and "key_matches k' (lower m1)"
    then consider "sublist k' (lower m1)" | "sublist (lower m1) k'"
      by (auto simp: key_matches_def)
    then show "k' = k"
    proof cases
      case 1
      with sub have "sublist k' (lower m2)" by auto
      then have "key_matches k' (lower m2)" by (simp add: key_matches_def)
      with bspec [OF assms(4) k'] show ?thesis by (rule mp)
    next
      case 2
      with assms(3) have "sublist k k'" by auto
      with bspec [OF bspec [OF INTERACTIONS_keys_incomparable kin] k'] show ?thesis
        by simp
    qed
  qed
  have "lookup_loop INTERACTIONS (lower m1) = foods"
    using assms(2) INTERACTIONS_keys_distinct m1 only1 by (rule lookup_loop_unique)
  moreover have "lookup_loop INTERACTIONS (lower m2) = foods"
    using assms(2) INTERACTIONS_keys_distinct m2 assms(4) by (rule lookup_loop_unique)
  moreover have "foods \<noteq> []"
    using INTERACTIONS_foods_nonempty assms(2) by force
  ultimately show ?thesis
    by (simp add: get_risky_foods_for_medication_def)
qed


text \<open>The theorem at \<open>Warfarin\<close> and \<open>Warfarin sodium\<close>.\<close>

theorem substring_names_same_foods_witness:
  "sublist ''Warfarin'' ''Warfarin sodium''
   \<and> get_risky_foods_for_medication ''Warfarin''
       = get_risky_foods_for_medication ''Warfarin sodium''
   \<and> get_risky_foods_for_medication ''Warfarin''
       = [''green leafy vegetables'', ''cranberries'', ''grapefruit'']"
proof -
  have a: "sublist ''Warfarin'' ''Warfarin sodium''"
    by code_simp
  have b: "(''warfarin'', [''green leafy vegetables'', ''cranberries'', ''grapefruit''])
             \<in> set INTERACTIONS"
    by code_simp
  have c: "sublist ''warfarin'' (lower ''Warfarin'')"
    by code_simp
  have d: "\<forall>k' \<in> fst ` set INTERACTIONS.
             key_matches k' (lower ''Warfarin sodium'') \<longrightarrow> k' = ''warfarin''"
    by code_simp
  note r = substring_names_same_foods [OF a b c d]
  from r have e: "get_risky_foods_for_medication ''Warfarin''
                    = get_risky_foods_for_medication ''Warfarin sodium''"
    by (rule conjunct1)
  from r have f: "get_risky_foods_for_medication ''Warfarin''
                    = [''green leafy vegetables'', ''cranberries'', ''grapefruit'']"
    by (rule conjunct1 [OF conjunct2])
  from a e f show ?thesis
    by (simp only: simp_thms)
qed

text \<open>
  C2 as stated fails both ways: \<open>statins\<close> is a substring of \<open>warfarin or statins\<close> and the
  two get different lists; \<open>aspirin\<close> is a substring of \<open>aspirin 81mg\<close> and gets the empty
  list.
\<close>

theorem substring_names_counterexample:
  "sublist ''statins'' ''warfarin or statins''
   \<and> get_risky_foods_for_medication ''statins''
       \<noteq> get_risky_foods_for_medication ''warfarin or statins''
   \<and> sublist ''aspirin'' ''aspirin 81mg''
   \<and> get_risky_foods_for_medication ''aspirin'' = []"
  by code_simp

section \<open>Properties of the text miner\<close>

text \<open>
  C5, as the code has it. On \<open>I am allergic to peanuts and shellfish\<close> the vocabulary
  loop finds \<open>peanuts\<close>, the only allergen that follows \<open>allergic to\<close>, and the free-form
  pattern captures the two words \<open>peanuts and\<close>: these two strings are the whole result.
\<close>

theorem extract_allergies_peanuts:
  "set (extract_allergies ''I am allergic to peanuts and shellfish'')
     = {''peanuts'', ''peanuts and''}"
proof -
  have "extract_allergies ''I am allergic to peanuts and shellfish''
          = [''peanuts'', ''peanuts and'']"
    by code_simp
  then show ?thesis by simp
qed

text \<open>C5 as stated fails: \<open>shellfish\<close> is not in the result.\<close>

theorem extract_allergies_shellfish_counterexample:
  "''shellfish'' \<notin> set (extract_allergies ''I am allergic to peanuts and shellfish'')"
  by code_simp

text \<open>
  C9. The empty prescription text takes the normal path of \<open>analyze_prescription\<close>, no
  exception is raised, and the findings hold no medication, no condition, no allergy
  and no restriction.
\<close>

theorem analyze_prescription_empty_text:
  "analyze_prescription_try (Some '''')
     = Inr \<lparr>medications = [], conditions = [], allergies = [], restrictions = []\<rparr>
   \<and> analyze_prescription (Some '''')
     = \<lparr>medications = [], conditions = [], allergies = [], restrictions = []\<rparr>"
  by code_simp

section \<open>Properties of extract\_description\<close>

lemma split_sep_not_Nil: "split_sep sep s \<noteq> []"
  by (induction sep s rule: split_sep.induct) (simp_all split: list.splits)

text \<open>The fallback of \<open>extract_description\<close> is never taken: \<open>split\<close> returns at least
  one piece, so the function always returns the first piece.\<close>

lemma extract_description_first_piece:
  "extract_description t = hd (split_sep [CHR 0x0A, CHR 0x0A] t)"
  using split_sep_not_Nil [of "[CHR 0x0A, CHR 0x0A]" t]
  by (simp add: extract_description_def split: list.splits)

lemma split_sep_no_occurrence:
  "\<not> sublist sep s \<Longrightarrow> split_sep sep s = [s]"
proof (induction sep s rule: split_sep.induct)
  case (1 sep)
  then show ?case by simp
next
  case (2 sep c cs)
  from 2(3) have np: "\<not> prefix sep (c # cs)" and ns: "\<not> sublist sep cs"
    by (auto simp: sublist_Cons_right)
  with 2(2) show ?case by simp
qed

text \<open>
  C6 at a text of three characters with no paragraph break: the code returns the text
  as it is, not its first 200 characters followed by \<open>...\<close>.
\<close>

theorem extract_description_no_break:
  "\<not> sublist [CHR 0x0A, CHR 0x0A] ''abc''
   \<and> extract_description ''abc'' = ''abc''
   \<and> extract_description ''abc'' \<noteq> take 200 ''abc'' @ ''...''"
  by code_simp

section \<open>Properties of check\_food\_safety\<close>

text \<open>A property of the tally that \<open>flag\<close> keeps is kept by every check.\<close>

lemma fold_keeps:
  assumes "\<And>x t. P t \<Longrightarrow> P (f x t)" and "P t"
  shows "P (fold f xs t)"
  using assms(2) by (induction xs arbitrary: t) (simp_all add: assms(1))

lemma checks_keep:
  assumes "\<And>item message t. P t \<Longrightarrow> P (flag item message t)"
  shows "P t \<Longrightarrow> P (check_name fname rs t)"
    and "P t \<Longrightarrow> P (check_ingredients ings rs t)"
    and "P t \<Longrightarrow> P (check_medications fname ings meds t)"
    and "P t \<Longrightarrow> P (check_allergies fname ings als t)"
proof -
  show "P t \<Longrightarrow> P (check_name fname rs t)"
    by (simp add: check_name_def assms)
  show "P t \<Longrightarrow> P (check_ingredients ings rs t)"
    unfolding check_ingredients_def
    apply (rule fold_keeps [where P = P])
     apply (rule fold_keeps [where P = P])
      apply (simp add: assms)
     apply assumption+
    done
  show "P t \<Longrightarrow> P (check_medications fname ings meds t)"
    unfolding check_medications_def
    apply (rule fold_keeps [where P = P])
     apply (rule fold_keeps [where P = P])
      apply (simp add: assms)
     apply assumption+
    done
  show "P t \<Longrightarrow> P (check_allergies fname ings als t)"
    unfolding check_allergies_def
    apply (rule fold_keeps [where P = P])
     apply (simp add: assms)
    apply assumption
    done
qed

lemma run_checks_keeps:
  assumes "\<And>item message t. P t \<Longrightarrow> P (flag item message t)"
    and "P (check_name fname (restrictions r) (True, [], []))"
  shows "P (run_checks fname ings r)"
proof -
  have a: "P (check_ingredients ings (restrictions r)
                (check_name fname (restrictions r) (True, [], [])))"
    by (rule checks_keep(2) [where P = P]) (erule assms(1), rule assms(2))
  have b: "P (check_medications fname ings (medications r)
                (check_ingredients ings (restrictions r)
                   (check_name fname (restrictions r) (True, [], []))))"
    by (rule checks_keep(3) [where P = P]) (erule assms(1), rule a)
  have "P (check_allergies fname ings (allergies r)
             (check_medications fname ings (medications r)
                (check_ingredients ings (restrictions r)
                   (check_name fname (restrictions r) (True, [], [])))))"
    by (rule checks_keep(4) [where P = P]) (erule assms(1), rule b)
  then show ?thesis
    by (simp add: run_checks_def)
qed

lemma tally_ok_flag: "tally_ok t \<Longrightarrow> tally_ok (flag item message t)"
  by (cases t) (simp add: tally_ok_def)

lemma tally_ok_run_checks: "tally_ok (run_checks fname ings r)"
proof (rule run_checks_keeps [where P = tally_ok])
  show "tally_ok (check_name fname (restrictions r) (True, [], []))"
    by (simp add: check_name_def tally_ok_def)
qed (erule tally_ok_flag)

lemma recorded_flag: "recorded item message t \<Longrightarrow> recorded item message (flag item' message' t)"
  by (cases t) (simp add: recorded_def)

lemma recorded_check_name:
  "lower fname \<in> set (map lower rs) \<Longrightarrow>
   recorded fname (fname @ '' is directly listed in your restrictions.'')
     (check_name fname rs (True, [], []))"
  by (simp add: check_name_def recorded_def)

lemma recorded_run_checks:
  assumes "lower fname \<in> set (map lower (restrictions r))"
  shows "recorded fname (fname @ '' is directly listed in your restrictions.'')
           (run_checks fname ings r)"
proof (rule run_checks_keeps
    [where P = "recorded fname (fname @ '' is directly listed in your restrictions.'')"])
  show "recorded fname (fname @ '' is directly listed in your restrictions.'')
          (check_name fname (restrictions r) (True, [], []))"
    using assms by (rule recorded_check_name)
qed (erule recorded_flag)

lemma check_food_safety_normal:
  "check_food_safety (Some fname) (Some fi) (Some r) =
     (make_verdict (run_checks fname (fst (load_ingredients fi)) r)
        (Some (snd (load_ingredients fi))),
      Some (snd (load_ingredients fi)))"
  by (simp add: check_food_safety_def check_food_safety_try_def split: prod.splits)

text \<open>
  C3, as the code has it. When the food name equals, ignoring case, a term of
  \<open>restrictions\<close>, the verdict is unsafe, the food name is among the offending items and
  the explanation \<open><food_name> is directly listed in your restrictions.\<close> is emitted.
\<close>

theorem food_name_listed_in_restrictions:
  assumes "lower fname \<in> set (map lower (restrictions r))"
  shows "\<not> is_safe (fst (check_food_safety (Some fname) (Some fi) (Some r)))
         \<and> fname \<in> set (unsafe_ingredients (fst (check_food_safety (Some fname) (Some fi) (Some r))))
         \<and> (fname @ '' is directly listed in your restrictions.'')
              \<in> set (explanation (fst (check_food_safety (Some fname) (Some fi) (Some r))))"
proof -
  obtain safe unsafe expl
    where t: "run_checks fname (fst (load_ingredients fi)) r = (safe, unsafe, expl)"
    by (cases "run_checks fname (fst (load_ingredients fi)) r") auto
  from recorded_run_checks [OF assms(1), of "fst (load_ingredients fi)"] t
  have "\<not> safe" and "fname \<in> set unsafe"
    and "(fname @ '' is directly listed in your restrictions.'') \<in> set expl"
    by (simp_all add: recorded_def)
  then show ?thesis
    by (simp add: check_food_safety_normal t make_verdict_def list_set_def)
qed

text \<open>The theorem at the food \<open>Grapefruit\<close> and the restriction \<open>grapefruit\<close>.\<close>

theorem food_name_listed_in_restrictions_witness:
  "lower ''Grapefruit'' \<in> set (map lower [''grapefruit''])
   \<and> \<not> is_safe (fst (check_food_safety (Some ''Grapefruit'')
          (Some \<lparr>ingredients = Some [], description = Some []\<rparr>)
          (Some \<lparr>medications = [], conditions = [], allergies = [],
                  restrictions = [''grapefruit'']\<rparr>)))
   \<and> ''Grapefruit'' \<in> set (unsafe_ingredients (fst (check_food_safety (Some ''Grapefruit'')
          (Some \<lparr>ingredients = Some [], description = Some []\<rparr>)
          (Some \<lparr>medications = [], conditions = [], allergies = [],
                  restrictions = [''grapefruit'']\<rparr>))))"
proof -
  have h: "lower ''Grapefruit''
             \<in> set (map lower (restrictions \<lparr>medications = [], conditions = [], allergies = [],
                                            restrictions = [''grapefruit'']\<rparr>))"
    by code_simp
  have h': "lower ''Grapefruit'' \<in> set (map lower [''grapefruit''])"
    by code_simp
  note r = food_name_listed_in_restrictions
             [OF h, of "\<lparr>ingredients = Some [], description = Some []\<rparr>"]
  from r have a: "\<not> is_safe (fst (check_food_safety (Some ''Grapefruit'')
          (Some \<lparr>ingredients = Some [], description = Some []\<rparr>)
          (Some \<lparr>medications = [], conditions = [], allergies = [],
                  restrictions = [''grapefruit'']\<rparr>)))"
    by (rule conjunct1)
  from r have b: "''Grapefruit'' \<in> set (unsafe_ingredients (fst (check_food_safety (Some ''Grapefruit'')
          (Some \<lparr>ingredients = Some [], description = Some []\<rparr>)
          (Some \<lparr>medications = [], conditions = [], allergies = [],
                  restrictions = [''grapefruit'']\<rparr>))))"
    by (rule conjunct1 [OF conjunct2])
  show ?thesis
    by (rule conjI [OF h' conjI [OF a b]])
qed

text \<open>
  C3 as stated fails: \<open>grapefruit juice\<close> contains the restriction \<open>grapefruit\<close>, yet with
  no ingredient, medication or allergy the verdict is safe. The test at line 180 is
  membership in the list of restrictions, not containment.
\<close>

theorem food_name_substring_counterexample:
  "sublist (lower ''grapefruit'') (lower ''grapefruit juice'')
   \<and> is_safe (fst (check_food_safety (Some ''grapefruit juice'')
          (Some \<lparr>ingredients = Some [], description = Some []\<rparr>)
          (Some \<lparr>medications = [], conditions = [], allergies = [],
                  restrictions = [''grapefruit'']\<rparr>)))"
  by code_simp

lemma check_food_safety_try_Inr:
  assumes "check_food_safety_try fname fi r = (fi', Inr v)"
  obtains name f rs where "fname = Some name" and "fi = Some f" and "r = Some rs"
    and "v = make_verdict (run_checks name (fst (load_ingredients f)) rs)
               (Some (snd (load_ingredients f)))"
  using assms
  by (auto simp: check_food_safety_try_def split: option.splits prod.splits)

text \<open>
  C10. On the normal path of \<open>check_food_safety\<close>, a verdict marked safe has no offending
  item and no explanation and carries the sentence
  \<open>This food appears to be safe for you to consume.\<close>; a verdict marked unsafe carries
  \<open>This food may not be safe for you based on your prescription.\<close>
\<close>

theorem normal_verdict_invariant:
  assumes "check_food_safety_try fname fi r = (fi', Inr v)"
  shows "(is_safe v \<longrightarrow>
            unsafe_ingredients v = [] \<and> explanation v = []
            \<and> recommendation v = ''This food appears to be safe for you to consume.'')
         \<and> (\<not> is_safe v \<longrightarrow>
            recommendation v = ''This food may not be safe for you based on your prescription.'')"
proof -
  from assms obtain name f rs
    where v: "v = make_verdict (run_checks name (fst (load_ingredients f)) rs)
                    (Some (snd (load_ingredients f)))"
    by (rule check_food_safety_try_Inr)
  obtain safe unsafe expl
    where t: "run_checks name (fst (load_ingredients f)) rs = (safe, unsafe, expl)"
    by (cases "run_checks name (fst (load_ingredients f)) rs") auto
  have "tally_ok (safe, unsafe, expl)"
    using tally_ok_run_checks [of name "fst (load_ingredients f)" rs] by (simp only: t)
  then have "safe = (unsafe = [])" and "safe = (expl = [])"
    by (auto simp: tally_ok_def)
  then show ?thesis
    by (auto simp: v t make_verdict_def list_set_def)
qed

text \<open>The theorem at a safe food and at an unsafe one.\<close>

theorem normal_verdict_invariant_witness:
  "check_food_safety_try (Some ''apple'')
      (Some \<lparr>ingredients = Some [''apple'', ''water''], description = Some []\<rparr>)
      (Some \<lparr>medications = [], conditions = [], allergies = [], restrictions = []\<rparr>)
    = (Some \<lparr>ingredients = Some [''apple'', ''water''], description = Some []\<rparr>,
       Inr \<lparr>is_safe = True, unsafe_ingredients = [],
            recommendation = ''This food appears to be safe for you to consume.'',
            explanation = [],
            food_info = Some \<lparr>ingredients = Some [''apple'', ''water''], description = Some []\<rparr>\<rparr>)
   \<and> check_food_safety_try (Some ''grapefruit juice'')
      (Some \<lparr>ingredients = Some [], description = Some []\<rparr>)
      (Some \<lparr>medications = [''statins''], conditions = [], allergies = [], restrictions = []\<rparr>)
    = (Some \<lparr>ingredients = Some [], description = Some []\<rparr>,
       Inr \<lparr>is_safe = False, unsafe_ingredients = [''grapefruit'', ''grapefruit juice''],
            recommendation = ''This food may not be safe for you based on your prescription.'',
            explanation = [''grapefruit may interact with your medication statins.'',
                           ''grapefruit juice may interact with your medication statins.''],
            food_info = Some \<lparr>ingredients = Some [], description = Some []\<rparr>\<rparr>)"
proof -
  define v1 where "v1 = make_verdict (run_checks ''apple'' [''apple'', ''water'']
      \<lparr>medications = [], conditions = [], allergies = [], restrictions = []\<rparr>)
      (Some \<lparr>ingredients = Some [''apple'', ''water''], description = Some []\<rparr>)"
  define v2 where "v2 = make_verdict (run_checks ''grapefruit juice'' []
      \<lparr>medications = [''statins''], conditions = [], allergies = [], restrictions = []\<rparr>)
      (Some \<lparr>ingredients = Some [], description = Some []\<rparr>)"
  have e1: "check_food_safety_try (Some ''apple'')
      (Some \<lparr>ingredients = Some [''apple'', ''water''], description = Some []\<rparr>)
      (Some \<lparr>medications = [], conditions = [], allergies = [], restrictions = []\<rparr>)
    = (Some \<lparr>ingredients = Some [''apple'', ''water''], description = Some []\<rparr>, Inr v1)"
    by (simp add: check_food_safety_try_def load_ingredients_def v1_def)
  have e2: "check_food_safety_try (Some ''grapefruit juice'')
      (Some \<lparr>ingredients = Some [], description = Some []\<rparr>)
      (Some \<lparr>medications = [''statins''], conditions = [], allergies = [], restrictions = []\<rparr>)
    = (Some \<lparr>ingredients = Some [], description = Some []\<rparr>, Inr v2)"
    by (simp add: check_food_safety_try_def load_ingredients_def v2_def)
  have s1: "is_safe v1" unfolding v1_def by code_simp
  have s2: "\<not> is_safe v2" unfolding v2_def by code_simp
  have u2: "unsafe_ingredients v2 = [''grapefruit'', ''grapefruit juice'']"
    unfolding v2_def by code_simp
  have x2: "explanation v2 = [''grapefruit may interact with your medication statins.'',
                           ''grapefruit juice may interact with your medication statins.'']"
    unfolding v2_def by code_simp
  have f1: "food_info v1 = Some \<lparr>ingredients = Some [''apple'', ''water''], description = Some []\<rparr>"
    by (simp add: v1_def make_verdict_def split: prod.splits)
  have f2: "food_info v2 = Some \<lparr>ingredients = Some [], description = Some []\<rparr>"
    by (simp add: v2_def make_verdict_def split: prod.splits)
  from normal_verdict_invariant [OF e1] s1
  have r1: "unsafe_ingredients v1 = []" "explanation v1 = []"
    "recommendation v1 = ''This food appears to be safe for you to consume.''"
    by simp_all
  from normal_verdict_invariant [OF e2] s2
  have r2: "recommendation v2 = ''This food may not be safe for you based on your prescription.''"
    by simp
  have "v1 = \<lparr>is_safe = True, unsafe_ingredients = [],
            recommendation = ''This food appears to be safe for you to consume.'',
            explanation = [],
            food_info = Some \<lparr>ingredients = Some [''apple'', ''water''], description = Some []\<rparr>\<rparr>"
    using s1 r1 f1 by (cases v1) simp
  moreover have "v2 = \<lparr>is_safe = False, unsafe_ingredients = [''grapefruit'', ''grapefruit juice''],
            recommendation = ''This food may not be safe for you based on your prescription.'',
            explanation = [''grapefruit may interact with your medication statins.'',
                           ''grapefruit juice may interact with your medication statins.''],
            food_info = Some \<lparr>ingredients = Some [], description = Some []\<rparr>\<rparr>"
    using s2 u2 x2 r2 f2 by (cases v2) simp
  ultimately show ?thesis
    using e1 e2 by (simp only:)
qed

text \<open>
  C8. Both functions are total: whatever the \<open>try\<close> block does, a value is returned.
  When the block of \<open>analyze_prescription\<close> raises, the result is the findings with four
  empty lists. When the block of \<open>check_food_safety\<close> raises, the verdict is marked unsafe
  and its recommendation sends the user to a doctor or pharmacist; so a verdict marked
  safe always comes from a block that ran to its end.
\<close>

theorem faults_yield_fallbacks:
  "(analyze_prescription_try t = Inl e \<longrightarrow>
      analyze_prescription t
        = \<lparr>medications = [], conditions = [], allergies = [], restrictions = []\<rparr>)
   \<and> (snd (check_food_safety_try fname fi r) = Inl e' \<longrightarrow>
      \<not> is_safe (fst (check_food_safety fname fi r))
      \<and> recommendation (fst (check_food_safety fname fi r))
          = ''Could not determine if this food is safe. Please consult with your doctor or pharmacist.''
      \<and> explanation (fst (check_food_safety fname fi r))
          = [''An error occurred during analysis. Please try again or consult a healthcare professional.''])
   \<and> (is_safe (fst (check_food_safety fname fi r)) \<longrightarrow>
      (\<exists>v. snd (check_food_safety_try fname fi r) = Inr v))"
proof (intro conjI impI)
  assume "analyze_prescription_try t = Inl e"
  then show "analyze_prescription t
        = \<lparr>medications = [], conditions = [], allergies = [], restrictions = []\<rparr>"
    by (simp add: analyze_prescription_def empty_findings_def)
next
  assume f: "snd (check_food_safety_try fname fi r) = Inl e'"
  then have c: "check_food_safety fname fi r
             = (fault_verdict (fst (check_food_safety_try fname fi r)),
                fst (check_food_safety_try fname fi r))"
    by (cases "check_food_safety_try fname fi r") (simp add: check_food_safety_def)
  show "\<not> is_safe (fst (check_food_safety fname fi r))"
    by (simp add: c fault_verdict_def)
  show "recommendation (fst (check_food_safety fname fi r))
          = ''Could not determine if this food is safe. Please consult with your doctor or pharmacist.''"
    by (simp add: c fault_verdict_def)
  show "explanation (fst (check_food_safety fname fi r))
          = [''An error occurred during analysis. Please try again or consult a healthcare professional.'']"
    by (simp add: c fault_verdict_def)
next
  assume s: "is_safe (fst (check_food_safety fname fi r))"
  show "\<exists>v. snd (check_food_safety_try fname fi r) = Inr v"
  proof (cases "snd (check_food_safety_try fname fi r)")
    case (Inl err)
    then have "check_food_safety fname fi r
             = (fault_verdict (fst (check_food_safety_try fname fi r)),
                fst (check_food_safety_try fname fi r))"
      by (cases "check_food_safety_try fname fi r") (simp add: check_food_safety_def)
    with s show ?thesis by (simp add: fault_verdict_def)
  next
    case (Inr v)
    then show ?thesis by simp
  qed
qed

text \<open>The theorem at arguments that are not of the expected types: a prescription text
  that is not a string, and a food name that is not a string.\<close>

theorem faults_yield_fallbacks_witness:
  "analyze_prescription_try None = Inl AttributeError
   \<and> analyze_prescription None
        = \<lparr>medications = [], conditions = [], allergies = [], restrictions = []\<rparr>
   \<and> snd (check_food_safety_try None
             (Some \<lparr>ingredients = Some [], description = Some []\<rparr>)
             (Some \<lparr>medications = [], conditions = [], allergies = [], restrictions = []\<rparr>))
        = Inl AttributeError
   \<and> \<not> is_safe (fst (check_food_safety None
             (Some \<lparr>ingredients = Some [], description = Some []\<rparr>)
             (Some \<lparr>medications = [], conditions = [], allergies = [], restrictions = []\<rparr>)))"
proof -
  have a: "analyze_prescription_try None = Inl AttributeError"
    by (simp add: analyze_prescription_try_def)
  have b: "snd (check_food_safety_try None
             (Some \<lparr>ingredients = Some [], description = Some []\<rparr>)
             (Some \<lparr>medications = [], conditions = [], allergies = [], restrictions = []\<rparr>))
        = Inl AttributeError"
    by (simp add: check_food_safety_try_def load_ingredients_def)
  note r = faults_yield_fallbacks [of None AttributeError None
             "Some \<lparr>ingredients = Some [], description = Some []\<rparr>"
             "Some \<lparr>medications = [], conditions = [], allergies = [], restrictions = []\<rparr>"
             AttributeError]
  from r a have c: "analyze_prescription None
        = \<lparr>medications = [], conditions = [], allergies = [], restrictions = []\<rparr>"
    by (simp only: simp_thms)
  from r b have d: "\<not> is_safe (fst (check_food_safety None
             (Some \<lparr>ingredients = Some [], description = Some []\<rparr>)
             (Some \<lparr>medications = [], conditions = [], allergies = [], restrictions = []\<rparr>)))"
    by (simp only: simp_thms)
  show ?thesis
    by (rule conjI [OF a conjI [OF c conjI [OF b d]]])
qed

lemma check_food_safety_state:
  "snd (check_food_safety fname (Some fi) r) = Some (snd (load_ingredients fi))"
  by (simp add: check_food_safety_def check_food_safety_try_def
      split: prod.splits option.splits sum.splits)

lemma check_food_safety_verdict_food_info:
  "food_info (fst (check_food_safety fname fi r)) = snd (check_food_safety fname fi r)"
  by (simp add: check_food_safety_def check_food_safety_try_def make_verdict_def
      fault_verdict_def split: prod.splits option.splits sum.splits)

lemma extract_ingredients_usda_milk:
  "extract_ingredients_from_text ''Information about milk from USDA Food Data Central''
     = [''milk'']"
  by code_simp

text \<open>
  C7, as the code has it. \<open>check_food_safety\<close> leaves \<open>food_info\<close> as it was, with one
  exception: when the \<open>ingredients\<close> entry is there and empty and the description is a
  string that is not empty, the ingredients extracted from the description are written
  into the caller's \<open>ingredients\<close> list. No other entry changes, and the \<open>food_info\<close>
  of the verdict is the caller's dictionary in its state after the call.
\<close>

theorem food_info_after_check:
  "(ingredients fi = Some [] \<longrightarrow> description fi = Some d \<longrightarrow> d \<noteq> [] \<longrightarrow>
      snd (check_food_safety fname (Some fi) r)
        = Some (fi\<lparr>ingredients := Some (extract_ingredients_from_text d)\<rparr>))
   \<and> (ingredients fi \<noteq> Some [] \<or> description fi = None \<or> description fi = Some [] \<longrightarrow>
      snd (check_food_safety fname (Some fi) r) = Some fi)
   \<and> food_info (fst (check_food_safety fname (Some fi) r))
        = snd (check_food_safety fname (Some fi) r)"
proof (intro conjI impI)
  assume "ingredients fi = Some []" and "description fi = Some d" and "d \<noteq> []"
  then show "snd (check_food_safety fname (Some fi) r)
        = Some (fi\<lparr>ingredients := Some (extract_ingredients_from_text d)\<rparr>)"
    by (simp add: check_food_safety_state load_ingredients_def Let_def)
next
  assume "ingredients fi \<noteq> Some [] \<or> description fi = None \<or> description fi = Some []"
  then show "snd (check_food_safety fname (Some fi) r) = Some fi"
    by (auto simp: check_food_safety_state load_ingredients_def Let_def
        split: option.splits)
next
  show "food_info (fst (check_food_safety fname (Some fi) r))
        = snd (check_food_safety fname (Some fi) r)"
    by (rule check_food_safety_verdict_food_info)
qed

text \<open>The theorem at a food record whose ingredients are empty and whose description
  names milk, and at one that has no \<open>ingredients\<close> entry.\<close>

theorem food_info_after_check_witness:
  "snd (check_food_safety (Some ''milk'')
          (Some \<lparr>ingredients = Some [],
                  description = Some ''Information about milk from USDA Food Data Central''\<rparr>)
          (Some \<lparr>medications = [], conditions = [], allergies = [], restrictions = []\<rparr>))
     = Some \<lparr>ingredients = Some [''milk''],
              description = Some ''Information about milk from USDA Food Data Central''\<rparr>
   \<and> snd (check_food_safety (Some ''milk'')
          (Some \<lparr>ingredients = None,
                  description = Some ''Information about milk from USDA Food Data Central''\<rparr>)
          (Some \<lparr>medications = [], conditions = [], allergies = [], restrictions = []\<rparr>))
     = Some \<lparr>ingredients = None,
              description = Some ''Information about milk from USDA Food Data Central''\<rparr>"
proof -
  note x = extract_ingredients_usda_milk
  have n: "''Information about milk from USDA Food Data Central'' \<noteq> []"
    by simp
  note r1 = food_info_after_check
      [of "\<lparr>ingredients = Some [],
            description = Some ''Information about milk from USDA Food Data Central''\<rparr>"
          "''Information about milk from USDA Food Data Central''"
          "Some ''milk''"
          "Some \<lparr>medications = [], conditions = [], allergies = [], restrictions = []\<rparr>"]
  note r2 = food_info_after_check
      [of "\<lparr>ingredients = None,
            description = Some ''Information about milk from USDA Food Data Central''\<rparr>"
          "[]"
          "Some ''milk''"
          "Some \<lparr>medications = [], conditions = [], allergies = [], restrictions = []\<rparr>"]
  from r1 n have "snd (check_food_safety (Some ''milk'')
          (Some \<lparr>ingredients = Some [],
                  description = Some ''Information about milk from USDA Food Data Central''\<rparr>)
          (Some \<lparr>medications = [], conditions = [], allergies = [], restrictions = []\<rparr>))
     = Some \<lparr>ingredients = Some [''milk''],
              description = Some ''Information about milk from USDA Food Data Central''\<rparr>"
    by (simp add: x)
  moreover from r2 have "snd (check_food_safety (Some ''milk'')
          (Some \<lparr>ingredients = None,
                  description = Some ''Information about milk from USDA Food Data Central''\<rparr>)
          (Some \<lparr>medications = [], conditions = [], allergies = [], restrictions = []\<rparr>))
     = Some \<lparr>ingredients = None,
              description = Some ''Information about milk from USDA Food Data Central''\<rparr>"
    by simp
  ultimately show ?thesis
    by (rule conjI)
qed

text \<open>
  C7 as stated fails: with an empty \<open>ingredients\<close> list and the description that
  \<open>get_usda_food_data\<close> builds for \<open>milk\<close>, the caller's \<open>food_info\<close> has changed when
  \<open>check_food_safety\<close> returns.
\<close>

theorem food_info_unchanged_counterexample:
  "snd (check_food_safety (Some ''milk'')
          (Some \<lparr>ingredients = Some [],
                  description = Some ''Information about milk from USDA Food Data Central''\<rparr>)
          (Some \<lparr>medications = [], conditions = [], allergies = [], restrictions = []\<rparr>))
     \<noteq> Some \<lparr>ingredients = Some [],
              description = Some ''Information about milk from USDA Food Data Central''\<rparr>"
  by (simp add: check_food_safety_state load_ingredients_def Let_def
      extract_ingredients_usda_milk)

section \<open>Case and deduplication\<close>

lemma letters_disjoint: "\<forall>d \<in> set lower_letters. d \<notin> set upper_letters"
  by code_simp

lemma letters_length: "length upper_letters = length lower_letters"
  by code_simp

lemma lower_char_idem: "lower_char (lower_char c) = lower_char c"
proof (cases "map_of (zip upper_letters lower_letters) c")
  case None
  then show ?thesis by (simp add: lower_char_def)
next
  case (Some d)
  then have "(c, d) \<in> set (zip upper_letters lower_letters)"
    by (rule map_of_SomeD)
  then have "d \<in> set lower_letters"
    by (rule set_zip_rightD)
  with letters_disjoint have "d \<notin> set upper_letters"
    by (rule bspec)
  moreover have "map fst (zip upper_letters lower_letters) = upper_letters"
    using letters_length by (rule map_fst_zip)
  ultimately have "d \<notin> fst ` set (zip upper_letters lower_letters)"
    by (metis set_map)
  then have "map_of (zip upper_letters lower_letters) d = None"
    by (simp add: map_of_eq_None_iff)
  with Some show ?thesis by (simp add: lower_char_def)
qed

lemma lower_idem: "lower (lower s) = lower s"
  by (simp add: lower_def lower_char_idem)

lemma lower_fixed_chars: "lower t = t \<longleftrightarrow> (\<forall>c \<in> set t. lower_char c = c)"
  unfolding lower_def by (induction t) auto

lemma lower_fixed_sublist:
  assumes "lower t = t" and "sublist g t"
  shows "lower g = g"
proof -
  from assms(2) have "set g \<subseteq> set t"
    by (rule set_mono_sublist)
  with assms(1) show ?thesis
    by (auto simp: lower_fixed_chars)
qed


section \<open>What the patterns capture\<close>

text \<open>A piece that succeeds has called its continuation on a suffix of its input.\<close>

lemma rx_lit_passes:
  assumes "rx_lit p k s = Some r"
  obtains s' where "suffix s' s" and "k s' = Some r"
proof -
  from assms have "k (drop (length p) s) = Some r"
    by (simp add: rx_lit_def split: if_splits)
  moreover have "suffix (drop (length p) s) s"
    by (rule suffix_drop)
  ultimately show ?thesis
    by (rule that [rotated])
qed

lemma rx_star_passes:
  assumes "rx_star cls k s = Some r"
  obtains s' where "suffix s' s" and "k s' = Some r"
  using assms
proof (induction s arbitrary: thesis)
  case Nil
  then show ?case by auto
next
  case (Cons c cs)
  show ?case
  proof (cases "cls c \<and> rx_star cls k cs \<noteq> None")
    case True
    with Cons.prems(2) have "rx_star cls k cs = Some r" by auto
    then obtain s' where "suffix s' cs" and "k s' = Some r"
      by (rule Cons.IH [rotated])
    then show ?thesis
      by (intro Cons.prems(1) [of s']) (auto simp: suffix_Cons)
  next
    case False
    with Cons.prems(2) have "k (c # cs) = Some r"
      by (auto split: if_splits option.splits)
    then show ?thesis
      by (intro Cons.prems(1) [of "c # cs"]) auto
  qed
qed

lemma rx_plus_passes:
  assumes "rx_plus cls k s = Some r"
  obtains s' where "suffix s' s" and "k s' = Some r"
proof (cases s)
  case Nil
  with assms show ?thesis by simp
next
  case (Cons c cs)
  with assms have "rx_star cls k cs = Some r"
    by (auto split: if_splits)
  then obtain s' where "suffix s' cs" and "k s' = Some r"
    by (rule rx_star_passes)
  with Cons show ?thesis
    by (intro that [of s']) (auto simp: suffix_Cons)
qed

lemma captured_prefix: "prefix (captured s1 s2) s1"
  by (simp add: captured_def take_is_prefix)

lemma one_or_two_words_parts:
  assumes "one_or_two_words s1 = Some (g, rest)"
  shows "prefix g s1 \<and> suffix rest s1"
proof -
  from assms obtain s2 where a: "suffix s2 s1"
    and b: "rx_opt (\<lambda>k. rx_plus is_space (rx_plus is_word k))
              (\<lambda>s2. Some (captured s1 s2, s2)) s2 = Some (g, rest)"
    unfolding one_or_two_words_def by (rule rx_plus_passes)
  have "\<exists>s3. suffix s3 s2 \<and> Some (captured s1 s3, s3) = Some (g, rest)"
  proof (cases "rx_plus is_space (rx_plus is_word (\<lambda>s2. Some (captured s1 s2, s2))) s2")
    case None
    with b show ?thesis by (auto simp: rx_opt_def)
  next
    case (Some r)
    with b have c: "rx_plus is_space (rx_plus is_word (\<lambda>s2. Some (captured s1 s2, s2))) s2
                      = Some (g, rest)"
      by (simp add: rx_opt_def)
    from c obtain s3 where d: "suffix s3 s2"
      and e: "rx_plus is_word (\<lambda>s2. Some (captured s1 s2, s2)) s3 = Some (g, rest)"
      by (rule rx_plus_passes)
    from e obtain s4 where f: "suffix s4 s3" and "Some (captured s1 s4, s4) = Some (g, rest)"
      by (rule rx_plus_passes)
    moreover from d f have "suffix s4 s2" by (rule suffix_order.trans [rotated])
    ultimately show ?thesis by blast
  qed
  then obtain s3 where "suffix s3 s2" and "g = captured s1 s3" and "rest = s3"
    by auto
  with a show ?thesis
    by (auto simp: captured_prefix intro: suffix_order.trans)
qed

lemma allergic_pattern_parts:
  assumes "allergic_pattern s = Some (g, rest)"
  shows "sublist g s \<and> suffix rest s"
proof -
  from assms obtain s1 where a1: "suffix s1 s"
    and b1: "rx_plus is_word (rx_plus is_space (rx_lit ''to''
               (rx_plus is_space one_or_two_words))) s1 = Some (g, rest)"
    unfolding allergic_pattern_def by (rule rx_lit_passes)
  from b1 obtain s2 where a2: "suffix s2 s1"
    and b2: "rx_plus is_space (rx_lit ''to'' (rx_plus is_space one_or_two_words)) s2
               = Some (g, rest)"
    by (rule rx_plus_passes)
  from b2 obtain s3 where a3: "suffix s3 s2"
    and b3: "rx_lit ''to'' (rx_plus is_space one_or_two_words) s3 = Some (g, rest)"
    by (rule rx_plus_passes)
  from b3 obtain s4 where a4: "suffix s4 s3"
    and b4: "rx_plus is_space one_or_two_words s4 = Some (g, rest)"
    by (rule rx_lit_passes)
  from b4 obtain s5 where a5: "suffix s5 s4"
    and b5: "one_or_two_words s5 = Some (g, rest)"
    by (rule rx_plus_passes)
  from a1 a2 a3 a4 a5 have s5: "suffix s5 s"
    by (meson suffix_order.trans)
  from b5 have "prefix g s5" and "suffix rest s5"
    by (simp_all add: one_or_two_words_parts)
  with s5 show ?thesis
    by (meson sublist_altdef' suffix_order.trans)
qed

lemma findall_sublist:
  "\<forall>s g rest. rx s = Some (g, rest) \<longrightarrow> sublist g s \<and> suffix rest s \<Longrightarrow>
   x \<in> set (findall rx s) \<Longrightarrow> sublist x s"
proof (induction rx s rule: findall.induct)
  case (1 rx)
  show ?case
  proof (cases "rx []")
    case None
    with "1.prems"(2) show ?thesis by simp
  next
    case (Some p)
    obtain g rest where "p = (g, rest)" by (cases p)
    with Some "1.prems"(2) have xg: "x = g" and rg: "rx [] = Some (g, rest)" by auto
    from "1.prems"(1) rg have "sublist g []" by blast
    with xg show ?thesis by (simp only:)
  qed
next
  case (2 rx c cs)
  show ?case
  proof (cases "rx (c # cs)")
    case None
    with 2 have "sublist x cs" by simp
    then show ?thesis by (simp add: sublist_Cons_right)
  next
    case (Some p)
    obtain g rest where p: "p = (g, rest)" by (cases p)
    with Some have rg: "rx (c # cs) = Some (g, rest)" by simp
    from "2.prems"(1) rg have gs: "sublist g (c # cs)" and rs: "suffix rest (c # cs)"
      by blast+
    from "2.prems"(2) rg
    consider "x = g" | "x \<in> set (findall rx (if length rest \<le> length cs then rest else cs))"
      by auto
    then show ?thesis
    proof cases
      case 1
      with gs show ?thesis by simp
    next
      case 2
      with "2.IH"(2) [OF Some p [symmetric] "2.prems"(1)] have
        "sublist x (if length rest \<le> length cs then rest else cs)"
        by simp
      moreover have "suffix (if length rest \<le> length cs then rest else cs) (c # cs)"
        using rs by (simp add: suffix_Cons)
      ultimately show ?thesis
        by (meson sublist_order.order_trans suffix_imp_sublist)
    qed
  qed
qed


lemma extract_allergies_elements:
  assumes "x \<in> set (extract_allergies t)"
  shows "x \<in> set ALLERGIES \<or> sublist x t"
proof -
  from assms consider "x \<in> set ALLERGIES" | "x \<in> set (findall allergic_pattern t)"
    by (auto simp: extract_allergies_def list_set_def)
  then show ?thesis
  proof cases
    case 1
    then show ?thesis by simp
  next
    case 2
    have "\<forall>s g rest. allergic_pattern s = Some (g, rest) \<longrightarrow> sublist g s \<and> suffix rest s"
      by (simp add: allergic_pattern_parts)
    from this 2 have "sublist x t"
      by (rule findall_sublist)
    then show ?thesis by simp
  qed
qed

lemma ALLERGIES_lower: "\<forall>a \<in> set ALLERGIES. lower a = a"
  by code_simp

lemma INTERACTIONS_foods_lower: "\<forall>kv \<in> set INTERACTIONS. \<forall>f \<in> set (snd kv). lower f = f"
  by code_simp

lemma CONDITIONS_foods_lower: "\<forall>kv \<in> set CONDITIONS. \<forall>f \<in> set (snd kv). lower f = f"
  by code_simp

lemma lookup_loop_elements:
  "x \<in> set (lookup_loop table name) \<Longrightarrow> \<exists>kv \<in> set table. x \<in> set (snd kv)"
  by (induction table name rule: lookup_loop.induct) (auto split: if_splits)

lemma analyze_prescription_restrictions_lower:
  assumes "x \<in> set (restrictions (analyze_prescription t))"
  shows "lower x = x"
proof (cases t)
  case None
  with assms show ?thesis
    by (simp add: analyze_prescription_def analyze_prescription_try_def empty_findings_def)
next
  case (Some p)
  with assms consider
      m where "x \<in> set (get_risky_foods_for_medication m)"
    | c where "x \<in> set (get_foods_to_avoid_for_condition c)"
    | "x \<in> set (extract_allergies (lower p))"
    by (auto simp: analyze_prescription_def analyze_prescription_try_def list_set_def Let_def
        split: if_splits)
  then show ?thesis
  proof cases
    case 1
    then obtain kv where "kv \<in> set INTERACTIONS" and "x \<in> set (snd kv)"
      unfolding get_risky_foods_for_medication_def by (blast dest: lookup_loop_elements)
    with INTERACTIONS_foods_lower show ?thesis by blast
  next
    case 2
    then obtain kv where "kv \<in> set CONDITIONS" and "x \<in> set (snd kv)"
      unfolding get_foods_to_avoid_for_condition_def by (blast dest: lookup_loop_elements)
    with CONDITIONS_foods_lower show ?thesis by blast
  next
    case 3
    then consider "x \<in> set ALLERGIES" | "sublist x (lower p)"
      by (blast dest: extract_allergies_elements)
    then show ?thesis
    proof cases
      case 1
      with ALLERGIES_lower show ?thesis by blast
    next
      case 2
      with lower_idem [of p] show ?thesis by (rule lower_fixed_sublist)
    qed
  qed
qed

lemma distinct_verdict_lists:
  "distinct (unsafe_ingredients (fst (check_food_safety fname fi r)))
   \<and> distinct (explanation (fst (check_food_safety fname fi r)))"
  by (simp add: check_food_safety_def check_food_safety_try_def make_verdict_def
      fault_verdict_def list_set_def split: prod.splits option.splits sum.splits)

lemma distinct_restrictions: "distinct (restrictions (analyze_prescription t))"
  by (simp add: analyze_prescription_def analyze_prescription_try_def empty_findings_def
      list_set_def Let_def split: option.splits)

text \<open>
  C4, as the code has it. Every returned collection is the result of \<open>list(set(...))\<close>
  and holds no string twice. The restrictions of \<open>analyze_prescription\<close> are all lower
  case, so among them no two differ only in case. The offending items and the
  explanations of \<open>check_food_safety\<close> are compared exactly, not ignoring case.
\<close>

theorem collections_deduplicated:
  "distinct (restrictions (analyze_prescription t))
   \<and> (\<forall>x \<in> set (restrictions (analyze_prescription t)).
        \<forall>y \<in> set (restrictions (analyze_prescription t)). lower x = lower y \<longrightarrow> x = y)
   \<and> distinct (unsafe_ingredients (fst (check_food_safety fname fi r)))
   \<and> distinct (explanation (fst (check_food_safety fname fi r)))"
proof -
  have "\<forall>x \<in> set (restrictions (analyze_prescription t)).
        \<forall>y \<in> set (restrictions (analyze_prescription t)). lower x = lower y \<longrightarrow> x = y"
  proof (intro ballI impI)
    fix x y
    assume "x \<in> set (restrictions (analyze_prescription t))"
      and "y \<in> set (restrictions (analyze_prescription t))"
    then have lx: "lower x = x" and ly: "lower y = y"
      by (simp_all add: analyze_prescription_restrictions_lower)
    assume "lower x = lower y"
    then show "x = y"
      by (simp only: lx ly)
  qed
  with distinct_restrictions [of t] distinct_verdict_lists [of fname fi r]
  show ?thesis by (simp only: simp_thms)
qed


text \<open>The theorem at the prescription \<open>Allergic to Milk\<close> and at the food \<open>Milk\<close> with the
  ingredient \<open>milk\<close>.\<close>

theorem collections_deduplicated_witness:
  "''milk'' \<in> set (restrictions (analyze_prescription (Some ''Allergic to Milk'')))
   \<and> distinct (restrictions (analyze_prescription (Some ''Allergic to Milk'')))
   \<and> distinct (unsafe_ingredients (fst (check_food_safety (Some ''Milk'')
         (Some \<lparr>ingredients = Some [''milk''], description = Some []\<rparr>)
         (Some \<lparr>medications = [], conditions = [], allergies = [],
                 restrictions = [''milk'']\<rparr>))))"
proof -
  have m: "''milk'' \<in> set (restrictions (analyze_prescription (Some ''Allergic to Milk'')))"
    by code_simp
  note r = collections_deduplicated [of "Some ''Allergic to Milk''" "Some ''Milk''"
      "Some \<lparr>ingredients = Some [''milk''], description = Some []\<rparr>"
      "Some \<lparr>medications = [], conditions = [], allergies = [], restrictions = [''milk'']\<rparr>"]
  from r have d: "distinct (restrictions (analyze_prescription (Some ''Allergic to Milk'')))"
    by (rule conjunct1)
  from r have u: "distinct (unsafe_ingredients (fst (check_food_safety (Some ''Milk'')
         (Some \<lparr>ingredients = Some [''milk''], description = Some []\<rparr>)
         (Some \<lparr>medications = [], conditions = [], allergies = [],
                 restrictions = [''milk'']\<rparr>))))"
    by (rule conjunct1 [OF conjunct2 [OF conjunct2]])
  show ?thesis
    by (rule conjI [OF m conjI [OF d u]])
qed

text \<open>
  C4 as stated fails: for the food \<open>Milk\<close> with the ingredient \<open>milk\<close> and the restriction
  \<open>milk\<close>, the offending items hold both \<open>Milk\<close> and \<open>milk\<close>, which are equal ignoring
  case.
\<close>

theorem case_insensitive_dedup_counterexample:
  "''Milk'' \<in> set (unsafe_ingredients (fst (check_food_safety (Some ''Milk'')
         (Some \<lparr>ingredients = Some [''milk''], description = Some []\<rparr>)
         (Some \<lparr>medications = [], conditions = [], allergies = [],
                 restrictions = [''milk'']\<rparr>))))
   \<and> ''milk'' \<in> set (unsafe_ingredients (fst (check_food_safety (Some ''Milk'')
         (Some \<lparr>ingredients = Some [''milk''], description = Some []\<rparr>)
         (Some \<lparr>medications = [], conditions = [], allergies = [],
                 restrictions = [''milk'']\<rparr>))))
   \<and> lower ''Milk'' = lower ''milk'' \<and> ''Milk'' \<noteq> ''milk''"
  by code_simp

end
